theory Spec2Isabelle
  imports Main
begin

section \<open>Strings and paths\<close>

text \<open>
  A JavaScript string is modelled as a \<^typ>\<open>string\<close> whose characters are 7-bit ASCII
  code units. Case conversion acts on the letters \<open>a\<close>..\<open>z\<close> and \<open>A\<close>..\<open>Z\<close> and leaves
  every other character as it is; the regular-expression class \<open>\s\<close> is the ASCII
  white space (space, tab, line feed, vertical tab, form feed, carriage return).
\<close>

type_synonym path = string










text \<open>
  \<open>s.split(re)\<close> for a regular expression \<open>re\<close> that matches exactly one character of
  a class: every match ends a segment, empty segments are kept, and the empty string
  splits into one empty segment.
\<close>

fun split :: "(char \<Rightarrow> bool) \<Rightarrow> string \<Rightarrow> string list" where
  "split sep [] = [[]]"
| "split sep (c # cs) =
     (if sep c then [] # split sep cs
      else (case split sep cs of
              [] \<Rightarrow> [[c]]
            | w # ws \<Rightarrow> (c # w) # ws))"

text \<open>\<open>xs.join(sep)\<close> on an array of strings.\<close>

fun joinWith :: "string \<Rightarrow> string list \<Rightarrow> string" where
  "joinWith sep [] = []"
| "joinWith sep [x] = x"
| "joinWith sep (x # y # ys) = x @ sep @ joinWith sep (y # ys)"

subsection \<open>\<open>path.join\<close> (POSIX)\<close>

text \<open>
  Node's \<open>path.join\<close> is library code: it joins the non-empty arguments with \<open>/\<close> and
  normalises the result. The normaliser drops empty and \<open>.\<close> segments, lets \<open>..\<close>
  remove the segment before it (or keeps it, in a relative path, when there is none),
  keeps a leading and a trailing slash, and returns \<open>.\<close> for an empty result.
  \<open>normalizeSegments\<close> carries the segments kept so far, last one first.
\<close>

fun normalizeSegments :: "bool \<Rightarrow> string list \<Rightarrow> string list \<Rightarrow> string list" where
  "normalizeSegments allowAboveRoot res [] = rev res"
| "normalizeSegments allowAboveRoot res (seg # segs) =
     (if seg = [] \<or> seg = ''.'' then normalizeSegments allowAboveRoot res segs
      else if seg = ''..'' then
        (case res of
           [] \<Rightarrow> normalizeSegments allowAboveRoot
                   (if allowAboveRoot then [''..''] else []) segs
         | r # rs \<Rightarrow>
             if r = ''..''
             then normalizeSegments allowAboveRoot
                    (if allowAboveRoot then ''..'' # res else res) segs
             else normalizeSegments allowAboveRoot rs segs)
      else normalizeSegments allowAboveRoot (seg # res) segs)"

definition normalize :: "path \<Rightarrow> path" where
  "normalize p =
     (if p = [] then ''.''
      else
        let isAbsolute = (hd p = CHR ''/'');
            trailingSeparator = (last p = CHR ''/'');
            body = joinWith ''/''
                     (normalizeSegments (\<not> isAbsolute) [] (split (\<lambda>c. c = CHR ''/'') p))
        in if body = [] then
             (if isAbsolute then ''/'' else if trailingSeparator then ''./'' else ''.'')
           else (if isAbsolute then ''/'' else []) @ body
                @ (if trailingSeparator then ''/'' else []))"

definition path_join :: "path list \<Rightarrow> path" where
  "path_join args =
     (let parts = filter (\<lambda>a. a \<noteq> []) args
      in if parts = [] then ''.'' else normalize (joinWith ''/'' parts))"

section \<open>The file-system adapter (\<open>utils/fs.ts\<close>)\<close>

text \<open>
  The state is the content of the regular files, by path. \<open>fs.writeJson\<close> and
  \<open>fs.readJson\<close> are library code (\<open>JSON.stringify\<close>, \<open>JSON.parse\<close>): a file written
  by one and read back by the other is represented by the JSON document it holds, and
  the documents are those of the two declared shapes, \<open>ExpoGenieConfig\<close> and
  \<open>Partial<GlobalConfig>\<close> (a global configuration file may lack fields), or of any
  other shape (\<open>OtherJson\<close>). \<open>Unparsable\<close> is a file whose text \<open>JSON.parse\<close> rejects.
  A read fails on a missing or unparsable file; failures of the operating system
  (permissions, a full disk, a missing parent directory) are outside the model, so a
  write always succeeds. Directories hold no content: a path names a file or nothing,
  and \<open>createDirectory\<close> leaves the state of the files as it is. A JSON object used
  as a dictionary is a map from ordinary property names to values.
\<close>

record FeatureConfig =
  enabled :: bool
  version :: string
  installedAt :: string
  uiLibrary :: string
  stateManagement :: string
  files :: "string list"
  dependencies :: "string list"

record ScreenConfig =
  type :: string
  uiLibrary :: string
  stateManagement :: string
  createdAt :: string
  filePath :: string

record ComponentConfig =
  type :: string
  uiLibrary :: string
  createdAt :: string
  filePath :: string

record Preferences =
  packageManager :: string
  autoInstall :: bool
  gitCommit :: bool
  typescript :: bool
  darkMode :: bool

text \<open>
  \<open>uiLibrary\<close> and \<open>stateManagement\<close> are unions of string literals in the interface;
  the code stores any string there (\<open>uiLibrary as any\<close>), so they are strings here.
  \<open>template\<close> is an optional field.
\<close>

record ExpoGenieConfig =
  version :: string
  projectName :: string
  template :: "string option"
  uiLibrary :: string
  stateManagement :: string
  features :: "string \<rightharpoonup> FeatureConfig"
  preferences :: Preferences
  screens :: "string \<rightharpoonup> ScreenConfig"
  components :: "string \<rightharpoonup> ComponentConfig"

text \<open>\<open>Partial<ExpoGenieConfig>\<close>: \<open>None\<close> is a key that the object does not have.\<close>

record Partial_ExpoGenieConfig =
  version :: "string option"
  projectName :: "string option"
  template :: "string option option"
  uiLibrary :: "string option"
  stateManagement :: "string option"
  features :: "(string \<rightharpoonup> FeatureConfig) option"
  preferences :: "Preferences option"
  screens :: "(string \<rightharpoonup> ScreenConfig) option"
  components :: "(string \<rightharpoonup> ComponentConfig) option"

record GlobalConfig =
  defaultTemplate :: string
  defaultPackageManager :: string
  defaultUILibrary :: string
  defaultStateManagement :: string
  autoInstall :: bool
  gitCommit :: bool
  darkMode :: bool
  recentProjects :: "string list"

text \<open>\<open>Partial<GlobalConfig>\<close>.\<close>

record Partial_GlobalConfig =
  defaultTemplate :: "string option"
  defaultPackageManager :: "string option"
  defaultUILibrary :: "string option"
  defaultStateManagement :: "string option"
  autoInstall :: "bool option"
  gitCommit :: "bool option"
  darkMode :: "bool option"
  recentProjects :: "string list option"

datatype json =
    ProjectJson ExpoGenieConfig
  | GlobalJson Partial_GlobalConfig
  | OtherJson

datatype content = Json json | Unparsable

type_synonym FileSystem = "path \<rightharpoonup> content"

text \<open>
  \<open>ReadJsonFailed\<close> is the error that \<open>readJson\<close> throws. The other two stand for a
  document that is not of the type its reader declares: the source returns it
  unchecked (\<open>readJson\<close> is typed \<open>any\<close>), and the model stops there.
\<close>

datatype error =
    ReadJsonFailed path
  | NotExpoGenieConfig path
  | NotGlobalConfig path

text \<open>
  An \<open>async\<close> function is a function of the state of the files that returns its result
  or the error it throws, together with the state it leaves behind: what was written
  before an error stays written. \<open>await\<close> runs an action and hands its result to the
  rest of the function, or stops at its error.
\<close>

type_synonym 'a promise = "FileSystem \<Rightarrow> (error + 'a) \<times> FileSystem"

definition resolve :: "'a \<Rightarrow> 'a promise" where
  "resolve x fs = (Inr x, fs)"

definition reject :: "error \<Rightarrow> 'a promise" where
  "reject e fs = (Inl e, fs)"

definition await :: "'a promise \<Rightarrow> ('a \<Rightarrow> 'b promise) \<Rightarrow> 'b promise" where
  "await action rest fs =
     (case action fs of
        (Inl e, fs') \<Rightarrow> (Inl e, fs')
      | (Inr x, fs') \<Rightarrow> rest x fs')"

definition createDirectory :: "path \<Rightarrow> unit promise" where
  "createDirectory dirPath = resolve ()"

definition fileExists :: "path \<Rightarrow> bool promise" where
  "fileExists filePath' fs = (Inr (fs filePath' \<noteq> None), fs)"

definition readJson :: "path \<Rightarrow> json promise" where
  "readJson filePath' fs =
     (case fs filePath' of
        Some (Json data) \<Rightarrow> (Inr data, fs)
      | Some Unparsable \<Rightarrow> (Inl (ReadJsonFailed filePath'), fs)
      | None \<Rightarrow> (Inl (ReadJsonFailed filePath'), fs))"

definition writeJson :: "path \<Rightarrow> json \<Rightarrow> unit promise" where
  "writeJson filePath' data fs = (Inr (), fs(filePath' \<mapsto> Json data))"

section \<open>The configuration store (\<open>utils/config.ts\<close>)\<close>

text \<open>
  \<open>os.homedir()\<close> is an input of the program: the operations on the global
  configuration take it as their first argument.
\<close>

definition CONFIG_FILE_NAME :: string where
  "CONFIG_FILE_NAME = ''expo-genie.json''"

definition GLOBAL_CONFIG_DIR :: "path \<Rightarrow> path" where
  "GLOBAL_CONFIG_DIR homedir = path_join [homedir, ''.expo-genie'']"

definition GLOBAL_CONFIG_FILE :: "path \<Rightarrow> path" where
  "GLOBAL_CONFIG_FILE homedir = path_join [GLOBAL_CONFIG_DIR homedir, ''config.json'']"

text \<open>
  One field of an object spread \<open>{...existing, ...updates}\<close>: the value of \<open>updates\<close>
  when it has the key, the value of \<open>existing\<close> otherwise.
\<close>

definition spreadField :: "'a \<Rightarrow> 'a option \<Rightarrow> 'a" where
  "spreadField existing updates = (case updates of None \<Rightarrow> existing | Some v \<Rightarrow> v)"

definition spread_ExpoGenieConfig ::
  "ExpoGenieConfig \<Rightarrow> Partial_ExpoGenieConfig \<Rightarrow> ExpoGenieConfig" where
  "spread_ExpoGenieConfig existing updates =
     \<lparr> ExpoGenieConfig.version =
         spreadField (ExpoGenieConfig.version existing) (Partial_ExpoGenieConfig.version updates),
       ExpoGenieConfig.projectName =
         spreadField (ExpoGenieConfig.projectName existing)
           (Partial_ExpoGenieConfig.projectName updates),
       ExpoGenieConfig.template =
         spreadField (ExpoGenieConfig.template existing)
           (Partial_ExpoGenieConfig.template updates),
       ExpoGenieConfig.uiLibrary =
         spreadField (ExpoGenieConfig.uiLibrary existing)
           (Partial_ExpoGenieConfig.uiLibrary updates),
       ExpoGenieConfig.stateManagement =
         spreadField (ExpoGenieConfig.stateManagement existing)
           (Partial_ExpoGenieConfig.stateManagement updates),
       ExpoGenieConfig.features =
         spreadField (ExpoGenieConfig.features existing)
           (Partial_ExpoGenieConfig.features updates),
       ExpoGenieConfig.preferences =
         spreadField (ExpoGenieConfig.preferences existing)
           (Partial_ExpoGenieConfig.preferences updates),
       ExpoGenieConfig.screens =
         spreadField (ExpoGenieConfig.screens existing)
           (Partial_ExpoGenieConfig.screens updates),
       ExpoGenieConfig.components =
         spreadField (ExpoGenieConfig.components existing)
           (Partial_ExpoGenieConfig.components updates) \<rparr>"

definition spread_GlobalConfig ::
  "GlobalConfig \<Rightarrow> Partial_GlobalConfig \<Rightarrow> GlobalConfig" where
  "spread_GlobalConfig existing updates =
     \<lparr> GlobalConfig.defaultTemplate =
         spreadField (GlobalConfig.defaultTemplate existing)
           (Partial_GlobalConfig.defaultTemplate updates),
       GlobalConfig.defaultPackageManager =
         spreadField (GlobalConfig.defaultPackageManager existing)
           (Partial_GlobalConfig.defaultPackageManager updates),
       GlobalConfig.defaultUILibrary =
         spreadField (GlobalConfig.defaultUILibrary existing)
           (Partial_GlobalConfig.defaultUILibrary updates),
       GlobalConfig.defaultStateManagement =
         spreadField (GlobalConfig.defaultStateManagement existing)
           (Partial_GlobalConfig.defaultStateManagement updates),
       GlobalConfig.autoInstall =
         spreadField (GlobalConfig.autoInstall existing)
           (Partial_GlobalConfig.autoInstall updates),
       GlobalConfig.gitCommit =
         spreadField (GlobalConfig.gitCommit existing)
           (Partial_GlobalConfig.gitCommit updates),
       GlobalConfig.darkMode =
         spreadField (GlobalConfig.darkMode existing)
           (Partial_GlobalConfig.darkMode updates),
       GlobalConfig.recentProjects =
         spreadField (GlobalConfig.recentProjects existing)
           (Partial_GlobalConfig.recentProjects updates) \<rparr>"

text \<open>A full \<open>GlobalConfig\<close> seen as the JSON object that has all eight keys.\<close>

definition allKeys :: "GlobalConfig \<Rightarrow> Partial_GlobalConfig" where
  "allKeys c =
     \<lparr> Partial_GlobalConfig.defaultTemplate = Some (GlobalConfig.defaultTemplate c),
       Partial_GlobalConfig.defaultPackageManager = Some (GlobalConfig.defaultPackageManager c),
       Partial_GlobalConfig.defaultUILibrary = Some (GlobalConfig.defaultUILibrary c),
       Partial_GlobalConfig.defaultStateManagement = Some (GlobalConfig.defaultStateManagement c),
       Partial_GlobalConfig.autoInstall = Some (GlobalConfig.autoInstall c),
       Partial_GlobalConfig.gitCommit = Some (GlobalConfig.gitCommit c),
       Partial_GlobalConfig.darkMode = Some (GlobalConfig.darkMode c),
       Partial_GlobalConfig.recentProjects = Some (GlobalConfig.recentProjects c) \<rparr>"

text \<open>An object with none of the keys, and the objects with one key that the code builds.\<close>

definition noUpdates :: Partial_ExpoGenieConfig where
  "noUpdates =
     \<lparr> Partial_ExpoGenieConfig.version = None,
       Partial_ExpoGenieConfig.projectName = None,
       Partial_ExpoGenieConfig.template = None,
       Partial_ExpoGenieConfig.uiLibrary = None,
       Partial_ExpoGenieConfig.stateManagement = None,
       Partial_ExpoGenieConfig.features = None,
       Partial_ExpoGenieConfig.preferences = None,
       Partial_ExpoGenieConfig.screens = None,
       Partial_ExpoGenieConfig.components = None \<rparr>"

definition noKeys :: Partial_GlobalConfig where
  "noKeys =
     \<lparr> Partial_GlobalConfig.defaultTemplate = None,
       Partial_GlobalConfig.defaultPackageManager = None,
       Partial_GlobalConfig.defaultUILibrary = None,
       Partial_GlobalConfig.defaultStateManagement = None,
       Partial_GlobalConfig.autoInstall = None,
       Partial_GlobalConfig.gitCommit = None,
       Partial_GlobalConfig.darkMode = None,
       Partial_GlobalConfig.recentProjects = None \<rparr>"

definition loadProjectConfig :: "path \<Rightarrow> ExpoGenieConfig option promise" where
  "loadProjectConfig projectPath =
     (let configPath = path_join [projectPath, CONFIG_FILE_NAME]
      in await (fileExists configPath) (\<lambda>exists.
           if exists then
             await (readJson configPath) (\<lambda>data.
               case data of
                 ProjectJson c \<Rightarrow> resolve (Some c)
               | _ \<Rightarrow> reject (NotExpoGenieConfig configPath))
           else resolve None))"

definition saveProjectConfig :: "path \<Rightarrow> ExpoGenieConfig \<Rightarrow> unit promise" where
  "saveProjectConfig projectPath config =
     (let configPath = path_join [projectPath, CONFIG_FILE_NAME]
      in writeJson configPath (ProjectJson config))"

definition defaults :: GlobalConfig where
  "defaults =
     \<lparr> GlobalConfig.defaultTemplate = ''blank'',
       GlobalConfig.defaultPackageManager = ''npm'',
       GlobalConfig.defaultUILibrary = ''nativewind'',
       GlobalConfig.defaultStateManagement = ''zustand'',
       GlobalConfig.autoInstall = True,
       GlobalConfig.gitCommit = False,
       GlobalConfig.darkMode = False,
       GlobalConfig.recentProjects = [] \<rparr>"

definition loadGlobalConfig :: "path \<Rightarrow> GlobalConfig promise" where
  "loadGlobalConfig homedir =
     await (fileExists (GLOBAL_CONFIG_FILE homedir)) (\<lambda>exists.
       if exists then
         await (readJson (GLOBAL_CONFIG_FILE homedir)) (\<lambda>data.
           case data of
             GlobalJson saved \<Rightarrow> resolve (spread_GlobalConfig defaults saved)
           | _ \<Rightarrow> reject (NotGlobalConfig (GLOBAL_CONFIG_FILE homedir)))
       else resolve defaults)"

definition saveGlobalConfig :: "path \<Rightarrow> Partial_GlobalConfig \<Rightarrow> unit promise" where
  "saveGlobalConfig homedir config =
     await (createDirectory (GLOBAL_CONFIG_DIR homedir)) (\<lambda>_.
     await (loadGlobalConfig homedir) (\<lambda>existing.
       let updated = spread_GlobalConfig existing config
       in writeJson (GLOBAL_CONFIG_FILE homedir) (GlobalJson (allKeys updated))))"

definition updateProjectConfig :: "path \<Rightarrow> Partial_ExpoGenieConfig \<Rightarrow> unit promise" where
  "updateProjectConfig projectPath updates =
     await (loadProjectConfig projectPath) (\<lambda>existing.
       case existing of
         Some existing \<Rightarrow>
           let updated = spread_ExpoGenieConfig existing updates
           in saveProjectConfig projectPath updated
       | None \<Rightarrow> resolve ())"

definition createDefaultConfig ::
  "string \<Rightarrow> string \<Rightarrow> string \<Rightarrow> string \<Rightarrow> string \<Rightarrow> ExpoGenieConfig" where
  "createDefaultConfig projectName' template' uiLibrary' stateManagement' packageManager' =
     \<lparr> ExpoGenieConfig.version = ''1.0.0'',
       ExpoGenieConfig.projectName = projectName',
       ExpoGenieConfig.template = Some template',
       ExpoGenieConfig.uiLibrary = uiLibrary',
       ExpoGenieConfig.stateManagement = stateManagement',
       ExpoGenieConfig.features = Map.empty,
       ExpoGenieConfig.preferences =
         \<lparr> Preferences.packageManager = packageManager',
           Preferences.autoInstall = True,
           Preferences.gitCommit = False,
           Preferences.typescript = True,
           Preferences.darkMode = False \<rparr>,
       ExpoGenieConfig.screens = Map.empty,
       ExpoGenieConfig.components = Map.empty \<rparr>"

definition addFeature :: "path \<Rightarrow> string \<Rightarrow> FeatureConfig \<Rightarrow> unit promise" where
  "addFeature projectPath featureName featureConfig =
     await (loadProjectConfig projectPath) (\<lambda>existing.
       case existing of
         Some existing \<Rightarrow>
           saveProjectConfig projectPath
             (existing\<lparr>ExpoGenieConfig.features :=
                (ExpoGenieConfig.features existing)(featureName \<mapsto> featureConfig)\<rparr>)
       | None \<Rightarrow> resolve ())"

definition addScreen :: "path \<Rightarrow> string \<Rightarrow> ScreenConfig \<Rightarrow> unit promise" where
  "addScreen projectPath screenName screenConfig =
     await (loadProjectConfig projectPath) (\<lambda>existing.
       case existing of
         Some existing \<Rightarrow>
           saveProjectConfig projectPath
             (existing\<lparr>ExpoGenieConfig.screens :=
                (ExpoGenieConfig.screens existing)(screenName \<mapsto> screenConfig)\<rparr>)
       | None \<Rightarrow> resolve ())"

definition addComponent :: "path \<Rightarrow> string \<Rightarrow> ComponentConfig \<Rightarrow> unit promise" where
  "addComponent projectPath componentName componentConfig =
     await (loadProjectConfig projectPath) (\<lambda>existing.
       case existing of
         Some existing \<Rightarrow>
           saveProjectConfig projectPath
             (existing\<lparr>ExpoGenieConfig.components :=
                (ExpoGenieConfig.components existing)(componentName \<mapsto> componentConfig)\<rparr>)
       | None \<Rightarrow> resolve ())"

definition updateUILibrary :: "path \<Rightarrow> string \<Rightarrow> unit promise" where
  "updateUILibrary projectPath uiLibrary' =
     updateProjectConfig projectPath
       (noUpdates\<lparr>Partial_ExpoGenieConfig.uiLibrary := Some uiLibrary'\<rparr>)"

definition updateStateManagement :: "path \<Rightarrow> string \<Rightarrow> unit promise" where
  "updateStateManagement projectPath stateManagement' =
     updateProjectConfig projectPath
       (noUpdates\<lparr>Partial_ExpoGenieConfig.stateManagement := Some stateManagement'\<rparr>)"

text \<open>
  \<open>filter\<close>, \<open>unshift\<close> and \<open>pop\<close> on the array: keep the other paths, put the new one
  in front, drop the last entry when there are more than ten.
\<close>

definition addRecentProject :: "path \<Rightarrow> path \<Rightarrow> unit promise" where
  "addRecentProject homedir projectPath =
     await (loadGlobalConfig homedir) (\<lambda>globalConfig.
       let filtered = filter (\<lambda>p. p \<noteq> projectPath) (GlobalConfig.recentProjects globalConfig);
           unshifted = projectPath # filtered;
           recentProjects' = (if length unshifted > 10 then butlast unshifted else unshifted)
       in saveGlobalConfig homedir
            (noKeys\<lparr>Partial_GlobalConfig.recentProjects := Some recentProjects'\<rparr>))"

text \<open>A sequence of \<open>addRecentProject\<close> calls, one after the other; an error ends it.\<close>

fun addRecentProjects :: "path \<Rightarrow> path list \<Rightarrow> unit promise" where
  "addRecentProjects homedir [] = resolve ()"
| "addRecentProjects homedir (p # ps) =
     await (addRecentProject homedir p) (\<lambda>_. addRecentProjects homedir ps)"

text \<open>
  The array that \<open>addRecentProject\<close> stores, as a function of the array it loaded.
\<close>

definition pushRecent :: "path \<Rightarrow> path list \<Rightarrow> path list" where
  "pushRecent p rs =
     (if length (p # filter (\<lambda>q. q \<noteq> p) rs) > 10
      then butlast (p # filter (\<lambda>q. q \<noteq> p) rs) else p # filter (\<lambda>q. q \<noteq> p) rs)"

definition isExpoGenieProject :: "path \<Rightarrow> bool promise" where
  "isExpoGenieProject projectPath =
     (let configPath = path_join [projectPath, CONFIG_FILE_NAME]
      in fileExists configPath)"

section \<open>Package-manager detection (\<open>utils/packageManager.ts\<close>)\<close>

datatype PackageManager = npm | yarn | pnpm | bun

text \<open>The entries of the \<open>lockFiles\<close> object, in the order \<open>Object.entries\<close> yields them.\<close>

definition lockFiles :: "(string \<times> PackageManager) list" where
  "lockFiles =
     [(''package-lock.json'', npm), (''yarn.lock'', yarn),
      (''pnpm-lock.yaml'', pnpm), (''bun.lockb'', bun)]"

text \<open>The \<open>for\<close> loop of \<open>detect\<close> over the entries that are left, and the final \<open>return\<close>.\<close>

fun detectLoop :: "path \<Rightarrow> (string \<times> PackageManager) list \<Rightarrow> PackageManager promise" where
  "detectLoop projectPath [] = resolve npm"
| "detectLoop projectPath ((lockFile, pm) # entries) =
     await (fileExists (path_join [projectPath, lockFile])) (\<lambda>exists.
       if exists then resolve pm else detectLoop projectPath entries)"

definition detect :: "path \<Rightarrow> PackageManager promise" where
  "detect projectPath = detectLoop projectPath lockFiles"

section \<open>The add-feature flow (\<open>commands/add.ts\<close>)\<close>

text \<open>
  The \<open>needsRegeneration\<close> expression of \<open>addCommand\<close>, for the record of an installed
  feature and the loaded project configuration.
\<close>

definition needsRegeneration :: "FeatureConfig \<Rightarrow> ExpoGenieConfig \<Rightarrow> bool" where
  "needsRegeneration existingFeature projectConfig =
     (let currentUILibrary = ExpoGenieConfig.uiLibrary projectConfig;
          currentStateManagement = ExpoGenieConfig.stateManagement projectConfig
      in FeatureConfig.uiLibrary existingFeature \<noteq> currentUILibrary \<or>
         FeatureConfig.stateManagement existingFeature \<noteq> currentStateManagement)"

section \<open>Code generators\<close>

subsection \<open>\<open>BaseGenerator\<close>\<close>

text \<open>
  \<open>GeneratorOptions\<close>: the optional fields are \<open>None\<close> when the caller leaves them
  out. The fields \<open>styling\<close> and \<open>stateManagement\<close> only select the text of the
  generated file and are left out of the model.
\<close>

record GeneratorOptions =
  projectPath :: path
  name :: string
  directory :: "string option"
  typescript :: "bool option"






subsection \<open>\<open>ScreenGenerator\<close>\<close>



section \<open>Properties of the configuration store\<close>

subsection \<open>Saving and loading\<close>

lemma loadProjectConfig_eq:
  "loadProjectConfig p fs =
     (case fs (path_join [p, CONFIG_FILE_NAME]) of
        None \<Rightarrow> (Inr None, fs)
      | Some Unparsable \<Rightarrow> (Inl (ReadJsonFailed (path_join [p, CONFIG_FILE_NAME])), fs)
      | Some (Json (ProjectJson c)) \<Rightarrow> (Inr (Some c), fs)
      | Some (Json _) \<Rightarrow> (Inl (NotExpoGenieConfig (path_join [p, CONFIG_FILE_NAME])), fs))"
  by (simp add: loadProjectConfig_def Let_def await_def fileExists_def readJson_def resolve_def
      reject_def split: option.splits content.splits json.splits)

lemma loadGlobalConfig_eq:
  "loadGlobalConfig h fs =
     (case fs (GLOBAL_CONFIG_FILE h) of
        None \<Rightarrow> (Inr defaults, fs)
      | Some Unparsable \<Rightarrow> (Inl (ReadJsonFailed (GLOBAL_CONFIG_FILE h)), fs)
      | Some (Json (GlobalJson saved)) \<Rightarrow> (Inr (spread_GlobalConfig defaults saved), fs)
      | Some (Json _) \<Rightarrow> (Inl (NotGlobalConfig (GLOBAL_CONFIG_FILE h)), fs))"
  by (simp add: loadGlobalConfig_def await_def fileExists_def readJson_def resolve_def
      reject_def split: option.splits content.splits json.splits)

text \<open>Loading never writes.\<close>

lemma loadProjectConfig_state: "snd (loadProjectConfig p fs) = fs"
  by (simp add: loadProjectConfig_eq split: option.splits content.splits json.splits)


lemma saveProjectConfig_eq:
  "saveProjectConfig p m fs =
     (Inr (), fs(path_join [p, CONFIG_FILE_NAME] \<mapsto> Json (ProjectJson m)))"
  by (simp add: saveProjectConfig_def Let_def writeJson_def)

lemma load_save_project:
  "saveProjectConfig p m fs = (Inr (), fs') \<Longrightarrow> loadProjectConfig p fs' = (Inr (Some m), fs')"
  by (auto simp: saveProjectConfig_eq loadProjectConfig_eq)

lemma spread_allKeys: "spread_GlobalConfig d (allKeys c) = c"
  by (simp add: spread_GlobalConfig_def allKeys_def spreadField_def)

lemma saveGlobalConfig_loaded:
  assumes "loadGlobalConfig h fs = (Inr existing, fs)"
  shows "\<exists>fs'. saveGlobalConfig h u fs = (Inr (), fs') \<and>
           loadGlobalConfig h fs' = (Inr (spread_GlobalConfig existing u), fs')"
  using assms
  by (simp add: saveGlobalConfig_def createDirectory_def await_def resolve_def writeJson_def
      loadGlobalConfig_eq [of h "fs(_ \<mapsto> _)"] spread_allKeys)




subsection \<open>Recent projects\<close>

lemma spread_recentProjects:
  "spread_GlobalConfig g (noKeys\<lparr>Partial_GlobalConfig.recentProjects := Some rs\<rparr>) =
     g\<lparr>GlobalConfig.recentProjects := rs\<rparr>"
  by (simp add: spread_GlobalConfig_def noKeys_def spreadField_def)

lemma addRecentProject_loaded:
  assumes "loadGlobalConfig h fs = (Inr g, fs)"
  shows "\<exists>fs'. addRecentProject h p fs = (Inr (), fs') \<and>
           loadGlobalConfig h fs' =
             (Inr (g\<lparr>GlobalConfig.recentProjects :=
                       pushRecent p (GlobalConfig.recentProjects g)\<rparr>), fs')"
proof -
  let ?rs = "pushRecent p (GlobalConfig.recentProjects g)"
  obtain fs' where
    "saveGlobalConfig h (noKeys\<lparr>Partial_GlobalConfig.recentProjects := Some ?rs\<rparr>) fs
       = (Inr (), fs')"
    "loadGlobalConfig h fs' =
       (Inr (spread_GlobalConfig g (noKeys\<lparr>Partial_GlobalConfig.recentProjects := Some ?rs\<rparr>)),
        fs')"
    using saveGlobalConfig_loaded [OF assms] by blast
  then show ?thesis
    using assms
    by (simp add: addRecentProject_def await_def Let_def pushRecent_def spread_recentProjects)
qed

lemma filter_absent: "p \<notin> set rs \<Longrightarrow> filter (\<lambda>q. q \<noteq> p) rs = rs"
  by (induction rs) auto

lemma pushRecent_length: "length rs \<le> 10 \<Longrightarrow> length (pushRecent p rs) \<le> 10"
proof -
  assume a: "length rs \<le> 10"
  have "length (filter (\<lambda>q. q \<noteq> p) rs) \<le> 10"
    using a length_filter_le [of "\<lambda>q. q \<noteq> p" rs] by (rule_tac order_trans)
  then show ?thesis by (simp add: pushRecent_def)
qed

lemma pushRecent_distinct: "distinct rs \<Longrightarrow> distinct (pushRecent p rs)"
  by (auto simp: pushRecent_def distinct_butlast dest: in_set_butlastD)

lemma pushRecent_first: "pushRecent p rs ! 0 = p"
  by (cases "filter (\<lambda>q. q \<noteq> p) rs") (auto simp: pushRecent_def)

lemma filter_present_length:
  "distinct rs \<Longrightarrow> p \<in> set rs \<Longrightarrow> Suc (length (filter (\<lambda>q. q \<noteq> p) rs)) = length rs"
  by (induction rs) (auto simp: filter_absent)

lemma pushRecent_present:
  assumes "distinct rs" "length rs \<le> 10" "p \<in> set rs"
  shows "length (pushRecent p rs) = length rs"
proof -
  have "Suc (length (filter (\<lambda>q. q \<noteq> p) rs)) = length rs"
    using assms by (simp add: filter_present_length)
  with assms(2) show ?thesis by (simp add: pushRecent_def)
qed

lemma pushRecent_absent:
  assumes "p \<notin> set rs" "length rs \<le> 10"
  shows "pushRecent p rs = take 10 (p # rs)"
proof (cases "length rs = 10")
  case True
  have "butlast (p # rs) = take (length (p # rs) - 1) (p # rs)"
    by (rule butlast_conv_take)
  with True assms(1) show ?thesis by (simp add: pushRecent_def filter_absent)
next
  case False
  with assms show ?thesis by (simp add: pushRecent_def filter_absent)
qed

lemma pushRecent_full:
  "p \<notin> set rs \<Longrightarrow> length rs = 10 \<Longrightarrow> pushRecent p rs = p # butlast rs"
  by (cases rs) (auto simp: pushRecent_def filter_absent)

lemma last_not_in_butlast: "distinct rs \<Longrightarrow> rs \<noteq> [] \<Longrightarrow> last rs \<notin> set (butlast rs)"
  by (induction rs) (auto dest: in_set_butlastD)

lemma addRecentProjects_invariant:
  "loadGlobalConfig h fs = (Inr g, fs) \<Longrightarrow>
   length (GlobalConfig.recentProjects g) \<le> 10 \<Longrightarrow>
   distinct (GlobalConfig.recentProjects g) \<Longrightarrow>
   \<exists>fs' g'. addRecentProjects h ps fs = (Inr (), fs') \<and>
     loadGlobalConfig h fs' = (Inr g', fs') \<and>
     length (GlobalConfig.recentProjects g') \<le> 10 \<and> distinct (GlobalConfig.recentProjects g')"
proof (induction ps arbitrary: fs g)
  case Nil
  then show ?case by (simp add: resolve_def)
next
  case (Cons p ps)
  obtain fs1 where s: "addRecentProject h p fs = (Inr (), fs1)"
    and l: "loadGlobalConfig h fs1 =
       (Inr (g\<lparr>GlobalConfig.recentProjects := pushRecent p (GlobalConfig.recentProjects g)\<rparr>),
        fs1)"
    using addRecentProject_loaded [OF Cons.prems(1)] by blast
  have "\<exists>fs' g'. addRecentProjects h ps fs1 = (Inr (), fs') \<and>
     loadGlobalConfig h fs' = (Inr g', fs') \<and>
     length (GlobalConfig.recentProjects g') \<le> 10 \<and> distinct (GlobalConfig.recentProjects g')"
    by (rule Cons.IH [OF l]) (simp_all add: pushRecent_length pushRecent_distinct Cons.prems)
  with s show ?case by (simp add: await_def)
qed

lemma take_append_take: "take n (xs @ take n ys) = take n (xs @ ys)"
  by (simp add: min_def)

lemma addRecentProjects_distinct:
  "loadGlobalConfig h fs = (Inr g, fs) \<Longrightarrow>
   length (GlobalConfig.recentProjects g) \<le> 10 \<Longrightarrow>
   distinct (ps @ GlobalConfig.recentProjects g) \<Longrightarrow>
   \<exists>fs' g'. addRecentProjects h ps fs = (Inr (), fs') \<and>
     loadGlobalConfig h fs' = (Inr g', fs') \<and>
     GlobalConfig.recentProjects g' = take 10 (rev ps @ GlobalConfig.recentProjects g)"
proof (induction ps arbitrary: fs g)
  case Nil
  then show ?case by (simp add: resolve_def)
next
  case (Cons p ps)
  let ?rs = "GlobalConfig.recentProjects g"
  obtain fs1 where s: "addRecentProject h p fs = (Inr (), fs1)"
    and l: "loadGlobalConfig h fs1 =
       (Inr (g\<lparr>GlobalConfig.recentProjects := pushRecent p ?rs\<rparr>), fs1)"
    using addRecentProject_loaded [OF Cons.prems(1)] by blast
  have pr: "pushRecent p ?rs = take 10 (p # ?rs)"
    using Cons.prems by (simp add: pushRecent_absent)
  have d: "distinct (ps @ take 10 (p # ?rs))"
    using Cons.prems(3) by (auto simp: distinct_take dest: in_set_takeD)
  obtain fs' g' where r: "addRecentProjects h ps fs1 = (Inr (), fs')"
    "loadGlobalConfig h fs' = (Inr g', fs')"
    "GlobalConfig.recentProjects g' = take 10 (rev ps @ take 10 (p # ?rs))"
    using Cons.IH [OF l] d pr by auto
  have "take 10 (rev ps @ take 10 (p # ?rs)) = take 10 (rev (p # ps) @ ?rs)"
    using take_append_take [of 10 "rev ps" "p # ?rs"] by simp
  with s r show ?case by (simp add: await_def)
qed

text \<open>
  C2. Starting from a global configuration whose \<open>recentProjects\<close> is empty, every
  sequence \<open>ps\<close> of \<open>addRecentProject\<close> calls returns, and the configuration loaded
  afterwards has at most 10 recent projects and no duplicate; when the paths of \<open>ps\<close>
  are distinct, the list is the last ten of them, most recent first, so the eleventh
  evicts the oldest. In a state whose list is duplicate-free and has at most ten
  entries, inserting a path that is present leaves the length unchanged and puts the
  path at index 0; inserting an absent path into a list of ten leaves ten entries,
  the new path at index 0 and the last (oldest) entry gone.
\<close>

theorem recent_projects_bounded_distinct:
  "(loadGlobalConfig h fs = (Inr g, fs) \<and> GlobalConfig.recentProjects g = [] \<longrightarrow>
      (\<exists>fs' g'. addRecentProjects h ps fs = (Inr (), fs') \<and>
         loadGlobalConfig h fs' = (Inr g', fs') \<and>
         length (GlobalConfig.recentProjects g') \<le> 10 \<and>
         distinct (GlobalConfig.recentProjects g') \<and>
         (distinct ps \<longrightarrow> GlobalConfig.recentProjects g' = take 10 (rev ps)))) \<and>
   (loadGlobalConfig h fs = (Inr g, fs) \<and> distinct (GlobalConfig.recentProjects g) \<and>
    length (GlobalConfig.recentProjects g) \<le> 10 \<and> p \<in> set (GlobalConfig.recentProjects g) \<longrightarrow>
      (\<exists>fs' g'. addRecentProject h p fs = (Inr (), fs') \<and>
         loadGlobalConfig h fs' = (Inr g', fs') \<and>
         length (GlobalConfig.recentProjects g') = length (GlobalConfig.recentProjects g) \<and>
         GlobalConfig.recentProjects g' ! 0 = p \<and>
         distinct (GlobalConfig.recentProjects g'))) \<and>
   (loadGlobalConfig h fs = (Inr g, fs) \<and> distinct (GlobalConfig.recentProjects g) \<and>
    length (GlobalConfig.recentProjects g) = 10 \<and> p \<notin> set (GlobalConfig.recentProjects g) \<longrightarrow>
      (\<exists>fs' g'. addRecentProject h p fs = (Inr (), fs') \<and>
         loadGlobalConfig h fs' = (Inr g', fs') \<and>
         length (GlobalConfig.recentProjects g') = 10 \<and>
         GlobalConfig.recentProjects g' ! 0 = p \<and>
         GlobalConfig.recentProjects g' = p # butlast (GlobalConfig.recentProjects g) \<and>
         last (GlobalConfig.recentProjects g) \<notin> set (GlobalConfig.recentProjects g')))"
proof (intro conjI impI)
  assume a: "loadGlobalConfig h fs = (Inr g, fs) \<and> GlobalConfig.recentProjects g = []"
  then obtain fs' g' where r: "addRecentProjects h ps fs = (Inr (), fs')"
    "loadGlobalConfig h fs' = (Inr g', fs')" "length (GlobalConfig.recentProjects g') \<le> 10"
    "distinct (GlobalConfig.recentProjects g')"
    using addRecentProjects_invariant [of h fs g ps] by auto
  have "distinct ps \<longrightarrow> GlobalConfig.recentProjects g' = take 10 (rev ps)"
  proof
    assume "distinct ps"
    with a addRecentProjects_distinct [of h fs g ps] r(1,2) show
      "GlobalConfig.recentProjects g' = take 10 (rev ps)" by auto
  qed
  with r show "\<exists>fs' g'. addRecentProjects h ps fs = (Inr (), fs') \<and>
         loadGlobalConfig h fs' = (Inr g', fs') \<and>
         length (GlobalConfig.recentProjects g') \<le> 10 \<and>
         distinct (GlobalConfig.recentProjects g') \<and>
         (distinct ps \<longrightarrow> GlobalConfig.recentProjects g' = take 10 (rev ps))"
    by blast
next
  assume a: "loadGlobalConfig h fs = (Inr g, fs) \<and> distinct (GlobalConfig.recentProjects g) \<and>
    length (GlobalConfig.recentProjects g) \<le> 10 \<and> p \<in> set (GlobalConfig.recentProjects g)"
  then obtain fs' where r: "addRecentProject h p fs = (Inr (), fs')"
    "loadGlobalConfig h fs' =
       (Inr (g\<lparr>GlobalConfig.recentProjects := pushRecent p (GlobalConfig.recentProjects g)\<rparr>),
        fs')"
    using addRecentProject_loaded [of h fs g p] by auto
  with a show "\<exists>fs' g'. addRecentProject h p fs = (Inr (), fs') \<and>
         loadGlobalConfig h fs' = (Inr g', fs') \<and>
         length (GlobalConfig.recentProjects g') = length (GlobalConfig.recentProjects g) \<and>
         GlobalConfig.recentProjects g' ! 0 = p \<and>
         distinct (GlobalConfig.recentProjects g')"
    by (simp add: pushRecent_present pushRecent_first pushRecent_distinct)
next
  assume a: "loadGlobalConfig h fs = (Inr g, fs) \<and> distinct (GlobalConfig.recentProjects g) \<and>
    length (GlobalConfig.recentProjects g) = 10 \<and> p \<notin> set (GlobalConfig.recentProjects g)"
  then obtain fs' where r: "addRecentProject h p fs = (Inr (), fs')"
    "loadGlobalConfig h fs' =
       (Inr (g\<lparr>GlobalConfig.recentProjects := pushRecent p (GlobalConfig.recentProjects g)\<rparr>),
        fs')"
    using addRecentProject_loaded [of h fs g p] by auto
  have ne: "GlobalConfig.recentProjects g \<noteq> []" using a by auto
  have l: "last (GlobalConfig.recentProjects g) \<noteq> p"
    using a ne last_in_set [OF ne] by metis
  have "last (GlobalConfig.recentProjects g) \<notin> set (butlast (GlobalConfig.recentProjects g))"
    using a ne by (simp add: last_not_in_butlast)
  with a r l show "\<exists>fs' g'. addRecentProject h p fs = (Inr (), fs') \<and>
         loadGlobalConfig h fs' = (Inr g', fs') \<and>
         length (GlobalConfig.recentProjects g') = 10 \<and>
         GlobalConfig.recentProjects g' ! 0 = p \<and>
         GlobalConfig.recentProjects g' = p # butlast (GlobalConfig.recentProjects g) \<and>
         last (GlobalConfig.recentProjects g) \<notin> set (GlobalConfig.recentProjects g')"
    by (simp add: pushRecent_full)
qed

text \<open>
  Eleven distinct paths inserted where no global file exists; a present path inserted
  again; an eleventh path inserted into a stored list of ten.
\<close>

theorem recent_projects_bounded_distinct_witness:
  "(\<exists>fs' g'. addRecentProjects ''/home/u''
        [''/p1'', ''/p2'', ''/p3'', ''/p4'', ''/p5'', ''/p6'', ''/p7'', ''/p8'', ''/p9'', ''/p10'',
      ''/p11''] Map.empty = (Inr (), fs') \<and>
      loadGlobalConfig ''/home/u'' fs' = (Inr g', fs') \<and>
      GlobalConfig.recentProjects g' =
        [''/p11'', ''/p10'', ''/p9'', ''/p8'', ''/p7'', ''/p6'', ''/p5'', ''/p4'', ''/p3'',
      ''/p2'']) \<and>
   (\<exists>fs' g'. addRecentProject ''/home/u'' ''/b''
        [GLOBAL_CONFIG_FILE ''/home/u'' \<mapsto>
           Json (GlobalJson (noKeys\<lparr>Partial_GlobalConfig.recentProjects :=
                                      Some [''/a'', ''/b'', ''/c'']\<rparr>))] = (Inr (), fs') \<and>
      loadGlobalConfig ''/home/u'' fs' = (Inr g', fs') \<and>
      length (GlobalConfig.recentProjects g') = 3 \<and>
      GlobalConfig.recentProjects g' ! 0 = ''/b'') \<and>
   (\<exists>fs' g'. addRecentProject ''/home/u'' ''/p11''
        [GLOBAL_CONFIG_FILE ''/home/u'' \<mapsto>
           Json (GlobalJson (noKeys\<lparr>Partial_GlobalConfig.recentProjects := Some
        [''/p10'', ''/p9'', ''/p8'', ''/p7'', ''/p6'', ''/p5'', ''/p4'', ''/p3'', ''/p2'', ''/p1'']\<rparr>))]
        = (Inr (), fs') \<and>
      loadGlobalConfig ''/home/u'' fs' = (Inr g', fs') \<and>
      GlobalConfig.recentProjects g' =
        [''/p11'', ''/p10'', ''/p9'', ''/p8'', ''/p7'', ''/p6'', ''/p5'', ''/p4'', ''/p3'',
      ''/p2''])"
proof -
  let ?h = "''/home/u''"
  let ?three = "[''/a'', ''/b'', ''/c'']"
  let ?ten = "[''/p10'', ''/p9'', ''/p8'', ''/p7'', ''/p6'', ''/p5'', ''/p4'', ''/p3'', ''/p2'', ''/p1'']"
  let ?eleven = "[''/p1'', ''/p2'', ''/p3'', ''/p4'', ''/p5'', ''/p6'', ''/p7'', ''/p8'', ''/p9'', ''/p10'',
      ''/p11'']"
  let ?after = "[''/p11'', ''/p10'', ''/p9'', ''/p8'', ''/p7'', ''/p6'', ''/p5'', ''/p4'', ''/p3'',
      ''/p2'']"
  let ?fs3 = "[GLOBAL_CONFIG_FILE ?h \<mapsto>
      Json (GlobalJson (noKeys\<lparr>Partial_GlobalConfig.recentProjects := Some ?three\<rparr>))]"
  let ?fs10 = "[GLOBAL_CONFIG_FILE ?h \<mapsto>
      Json (GlobalJson (noKeys\<lparr>Partial_GlobalConfig.recentProjects := Some ?ten\<rparr>))]"
  have l0: "loadGlobalConfig ?h Map.empty = (Inr defaults, Map.empty) \<and>
      GlobalConfig.recentProjects defaults = []"
    by (simp add: loadGlobalConfig_eq defaults_def)
  have d11: "distinct ?eleven"
    by simp
  have t11: "take 10 (rev ?eleven) = ?after"
    by simp
  have l3: "loadGlobalConfig ?h ?fs3 =
      (Inr (defaults\<lparr>GlobalConfig.recentProjects := ?three\<rparr>), ?fs3)"
    by (simp add: loadGlobalConfig_eq spread_recentProjects)
  have l10: "loadGlobalConfig ?h ?fs10 =
      (Inr (defaults\<lparr>GlobalConfig.recentProjects := ?ten\<rparr>), ?fs10)"
    by (simp add: loadGlobalConfig_eq spread_recentProjects)
  have b10: "''/p11'' # butlast ?ten = ?after"
    by simp
  have first: "\<exists>fs' g'. addRecentProjects ?h ?eleven Map.empty = (Inr (), fs') \<and>
      loadGlobalConfig ?h fs' = (Inr g', fs') \<and> GlobalConfig.recentProjects g' = ?after"
    using recent_projects_bounded_distinct
      [where h = ?h and fs = Map.empty and g = defaults and ps = ?eleven] l0 d11 t11
    by metis
  have second: "\<exists>fs' g'. addRecentProject ?h ''/b'' ?fs3 = (Inr (), fs') \<and>
      loadGlobalConfig ?h fs' = (Inr g', fs') \<and>
      length (GlobalConfig.recentProjects g') = 3 \<and> GlobalConfig.recentProjects g' ! 0 = ''/b''"
    using recent_projects_bounded_distinct
      [where h = ?h and fs = ?fs3 and g = "defaults\<lparr>GlobalConfig.recentProjects := ?three\<rparr>"
         and p = "''/b''"] l3
    by (auto simp: eval_nat_numeral)
  have third: "\<exists>fs' g'. addRecentProject ?h ''/p11'' ?fs10 = (Inr (), fs') \<and>
      loadGlobalConfig ?h fs' = (Inr g', fs') \<and> GlobalConfig.recentProjects g' = ?after"
    using recent_projects_bounded_distinct
      [where h = ?h and fs = ?fs10 and g = "defaults\<lparr>GlobalConfig.recentProjects := ?ten\<rparr>"
         and p = "''/p11''"] l10 b10
    by auto
  from first second third show ?thesis by blast
qed

subsection \<open>Mutating the manifest\<close>

lemma loadProjectConfig_absent:
  "isExpoGenieProject p fs = (Inr False, fs) \<Longrightarrow> loadProjectConfig p fs = (Inr None, fs)"
  by (simp add: isExpoGenieProject_def Let_def fileExists_def loadProjectConfig_eq)

text \<open>
  C3. Where no manifest file exists at the project path, \<open>addFeature\<close>, \<open>addScreen\<close> and
  \<open>addComponent\<close> return normally and leave the state of the files as it was.
\<close>

theorem absent_manifest_no_op:
  assumes "isExpoGenieProject p fs = (Inr False, fs)"
  shows "addFeature p featureName f fs = (Inr (), fs) \<and>
         addScreen p screenName s fs = (Inr (), fs) \<and>
         addComponent p componentName c fs = (Inr (), fs)"
  using loadProjectConfig_absent [OF assms]
  by (simp add: addFeature_def addScreen_def addComponent_def await_def resolve_def)

text \<open>A directory that holds another file, but no manifest.\<close>

theorem absent_manifest_no_op_witness:
  "isExpoGenieProject ''/app'' [''/app/package.json'' \<mapsto> Json OtherJson] =
     (Inr False, [''/app/package.json'' \<mapsto> Json OtherJson]) \<and>
   addFeature ''/app'' ''camera''
        \<lparr>enabled = True, FeatureConfig.version = ''1.0.0'',
          installedAt = ''2024-01-01T00:00:00.000Z'', FeatureConfig.uiLibrary = ''nativewind'',
          FeatureConfig.stateManagement = ''zustand'', files = [''src/hooks/useCamera.ts''],
          dependencies = [''expo-camera'']\<rparr> [''/app/package.json'' \<mapsto> Json OtherJson]
     = (Inr (), [''/app/package.json'' \<mapsto> Json OtherJson]) \<and>
   addScreen ''/app'' ''Home''
        \<lparr>ScreenConfig.type = ''list'', ScreenConfig.uiLibrary = ''nativewind'',
          ScreenConfig.stateManagement = ''zustand'', ScreenConfig.createdAt = ''2024-01-01'',
          ScreenConfig.filePath = ''src/screens/Home.tsx''\<rparr> [''/app/package.json'' \<mapsto> Json OtherJson]
     = (Inr (), [''/app/package.json'' \<mapsto> Json OtherJson]) \<and>
   addComponent ''/app'' ''Card''
        \<lparr>ComponentConfig.type = ''card'', ComponentConfig.uiLibrary = ''nativewind'',
          ComponentConfig.createdAt = ''2024-01-01'',
          ComponentConfig.filePath = ''src/components/Card.tsx''\<rparr> [''/app/package.json'' \<mapsto> Json OtherJson]
     = (Inr (), [''/app/package.json'' \<mapsto> Json OtherJson])"
proof -
  have "path_join [''/app'', CONFIG_FILE_NAME] = ''/app/expo-genie.json''"
    by code_simp
  then have absent: "isExpoGenieProject ''/app'' [''/app/package.json'' \<mapsto> Json OtherJson] =
      (Inr False, [''/app/package.json'' \<mapsto> Json OtherJson])"
    by (simp add: isExpoGenieProject_def Let_def fileExists_def)
  from absent absent_manifest_no_op [OF absent] show ?thesis
    by blast
qed







lemma updateProjectConfig_loaded:
  "loadProjectConfig p fs = (Inr (Some m), fs) \<Longrightarrow>
   updateProjectConfig p u fs = saveProjectConfig p (spread_ExpoGenieConfig m u) fs"
  by (simp add: updateProjectConfig_def await_def)

lemma spread_uiLibrary:
  "spread_ExpoGenieConfig m (noUpdates\<lparr>Partial_ExpoGenieConfig.uiLibrary := Some lib\<rparr>) =
     m\<lparr>ExpoGenieConfig.uiLibrary := lib\<rparr>"
  by (simp add: spread_ExpoGenieConfig_def noUpdates_def spreadField_def)

lemma spread_stateManagement:
  "spread_ExpoGenieConfig m (noUpdates\<lparr>Partial_ExpoGenieConfig.stateManagement := Some lib\<rparr>) =
     m\<lparr>ExpoGenieConfig.stateManagement := lib\<rparr>"
  by (simp add: spread_ExpoGenieConfig_def noUpdates_def spreadField_def)

lemma saveProjectConfig_frame:
  "\<exists>fs'. saveProjectConfig p m fs = (Inr (), fs') \<and>
     loadProjectConfig p fs' = (Inr (Some m), fs') \<and>
     (\<forall>q. q \<noteq> path_join [p, CONFIG_FILE_NAME] \<longrightarrow> fs' q = fs q)"
  by (simp add: saveProjectConfig_eq loadProjectConfig_eq)

text \<open>
  C5. In a project with a manifest \<open>m\<close>, \<open>updateUILibrary\<close> returns and the manifest
  loaded afterwards is \<open>m\<close> with only its \<open>uiLibrary\<close> field replaced: the \<open>features\<close>,
  \<open>screens\<close> and \<open>components\<close> maps and every other field are those of \<open>m\<close>, and no
  file other than the manifest changes. \<open>updateStateManagement\<close> does the same for the
  \<open>stateManagement\<close> field.
\<close>

theorem update_library_changes_one_field:
  assumes "loadProjectConfig p fs = (Inr (Some m), fs)"
  shows "(\<exists>fs' m'. updateUILibrary p lib fs = (Inr (), fs') \<and>
            loadProjectConfig p fs' = (Inr (Some m'), fs') \<and>
            m' = m\<lparr>ExpoGenieConfig.uiLibrary := lib\<rparr> \<and>
            ExpoGenieConfig.features m' = ExpoGenieConfig.features m \<and>
            ExpoGenieConfig.screens m' = ExpoGenieConfig.screens m \<and>
            ExpoGenieConfig.components m' = ExpoGenieConfig.components m \<and>
            (\<forall>q. q \<noteq> path_join [p, CONFIG_FILE_NAME] \<longrightarrow> fs' q = fs q)) \<and>
         (\<exists>fs' m'. updateStateManagement p lib fs = (Inr (), fs') \<and>
            loadProjectConfig p fs' = (Inr (Some m'), fs') \<and>
            m' = m\<lparr>ExpoGenieConfig.stateManagement := lib\<rparr> \<and>
            ExpoGenieConfig.features m' = ExpoGenieConfig.features m \<and>
            ExpoGenieConfig.screens m' = ExpoGenieConfig.screens m \<and>
            ExpoGenieConfig.components m' = ExpoGenieConfig.components m \<and>
            (\<forall>q. q \<noteq> path_join [p, CONFIG_FILE_NAME] \<longrightarrow> fs' q = fs q))"
proof (intro conjI)
  have "updateUILibrary p lib fs =
      saveProjectConfig p (m\<lparr>ExpoGenieConfig.uiLibrary := lib\<rparr>) fs"
    using assms by (simp add: updateUILibrary_def updateProjectConfig_loaded spread_uiLibrary)
  with saveProjectConfig_frame [of p "m\<lparr>ExpoGenieConfig.uiLibrary := lib\<rparr>" fs]
  show "\<exists>fs' m'. updateUILibrary p lib fs = (Inr (), fs') \<and>
            loadProjectConfig p fs' = (Inr (Some m'), fs') \<and>
            m' = m\<lparr>ExpoGenieConfig.uiLibrary := lib\<rparr> \<and>
            ExpoGenieConfig.features m' = ExpoGenieConfig.features m \<and>
            ExpoGenieConfig.screens m' = ExpoGenieConfig.screens m \<and>
            ExpoGenieConfig.components m' = ExpoGenieConfig.components m \<and>
            (\<forall>q. q \<noteq> path_join [p, CONFIG_FILE_NAME] \<longrightarrow> fs' q = fs q)"
    by auto
next
  have "updateStateManagement p lib fs =
      saveProjectConfig p (m\<lparr>ExpoGenieConfig.stateManagement := lib\<rparr>) fs"
    using assms
    by (simp add: updateStateManagement_def updateProjectConfig_loaded spread_stateManagement)
  with saveProjectConfig_frame [of p "m\<lparr>ExpoGenieConfig.stateManagement := lib\<rparr>" fs]
  show "\<exists>fs' m'. updateStateManagement p lib fs = (Inr (), fs') \<and>
            loadProjectConfig p fs' = (Inr (Some m'), fs') \<and>
            m' = m\<lparr>ExpoGenieConfig.stateManagement := lib\<rparr> \<and>
            ExpoGenieConfig.features m' = ExpoGenieConfig.features m \<and>
            ExpoGenieConfig.screens m' = ExpoGenieConfig.screens m \<and>
            ExpoGenieConfig.components m' = ExpoGenieConfig.components m \<and>
            (\<forall>q. q \<noteq> path_join [p, CONFIG_FILE_NAME] \<longrightarrow> fs' q = fs q)"
    by auto
qed

text \<open>
  A project on \<open>paper\<close> with a camera feature generated for \<open>paper\<close> moves to
  \<open>nativewind\<close>: the record of the feature still says \<open>paper\<close>.
\<close>

theorem update_library_changes_one_field_witness:
  "\<exists>fs0 fs' m'.
     saveProjectConfig ''/app''
       ((createDefaultConfig ''demo'' ''blank'' ''paper'' ''zustand'' ''npm'')
          \<lparr>ExpoGenieConfig.features := [''camera'' \<mapsto>
        \<lparr>enabled = True, FeatureConfig.version = ''1.0.0'',
          installedAt = ''2024-01-01T00:00:00.000Z'', FeatureConfig.uiLibrary = ''paper'',
          FeatureConfig.stateManagement = ''zustand'', files = [''src/hooks/useCamera.ts''],
          dependencies = [''expo-camera'']\<rparr>]\<rparr>)
       Map.empty = (Inr (), fs0) \<and>
     updateUILibrary ''/app'' ''nativewind'' fs0 = (Inr (), fs') \<and>
     loadProjectConfig ''/app'' fs' = (Inr (Some m'), fs') \<and>
     ExpoGenieConfig.uiLibrary m' = ''nativewind'' \<and>
     ExpoGenieConfig.features m' ''camera'' = Some
        \<lparr>enabled = True, FeatureConfig.version = ''1.0.0'',
          installedAt = ''2024-01-01T00:00:00.000Z'', FeatureConfig.uiLibrary = ''paper'',
          FeatureConfig.stateManagement = ''zustand'', files = [''src/hooks/useCamera.ts''],
          dependencies = [''expo-camera'']\<rparr>"
proof -
  let ?m = "(createDefaultConfig ''demo'' ''blank'' ''paper'' ''zustand'' ''npm'')
             \<lparr>ExpoGenieConfig.features := [''camera'' \<mapsto>
        \<lparr>enabled = True, FeatureConfig.version = ''1.0.0'',
          installedAt = ''2024-01-01T00:00:00.000Z'', FeatureConfig.uiLibrary = ''paper'',
          FeatureConfig.stateManagement = ''zustand'', files = [''src/hooks/useCamera.ts''],
          dependencies = [''expo-camera'']\<rparr>]\<rparr>"
  obtain fs0 where s: "saveProjectConfig ''/app'' ?m Map.empty = (Inr (), fs0)"
    by (simp add: saveProjectConfig_eq)
  then have "loadProjectConfig ''/app'' fs0 = (Inr (Some ?m), fs0)"
    by (rule load_save_project)
  from update_library_changes_one_field [OF this, of "''nativewind''"] obtain fs' m'
    where "updateUILibrary ''/app'' ''nativewind'' fs0 = (Inr (), fs')"
      "loadProjectConfig ''/app'' fs' = (Inr (Some m'), fs')"
      "m' = ?m\<lparr>ExpoGenieConfig.uiLibrary := ''nativewind''\<rparr>"
    by blast
  with s show ?thesis
    by (intro exI [of _ fs0] exI [of _ fs'] exI [of _ m']) simp
qed

subsection \<open>Loading the global configuration\<close>




section \<open>Properties of package-manager detection\<close>

text \<open>
  C9. \<open>detect\<close> looks for \<open>package-lock.json\<close>, \<open>yarn.lock\<close>, \<open>pnpm-lock.yaml\<close> and
  \<open>bun.lockb\<close> in the project directory, in this order, and returns the package
  manager of the first one that exists: \<open>npm\<close>, \<open>yarn\<close>, \<open>pnpm\<close>, \<open>bun\<close>. With none of
  them it returns \<open>npm\<close>. It never writes.
\<close>

theorem detect_first_lockfile:
  "(fileExists (path_join [p, ''package-lock.json'']) fs = (Inr True, fs) \<longrightarrow>
      detect p fs = (Inr npm, fs)) \<and>
   (fileExists (path_join [p, ''package-lock.json'']) fs = (Inr False, fs) \<and>
    fileExists (path_join [p, ''yarn.lock'']) fs = (Inr True, fs) \<longrightarrow>
      detect p fs = (Inr yarn, fs)) \<and>
   (fileExists (path_join [p, ''package-lock.json'']) fs = (Inr False, fs) \<and>
    fileExists (path_join [p, ''yarn.lock'']) fs = (Inr False, fs) \<and>
    fileExists (path_join [p, ''pnpm-lock.yaml'']) fs = (Inr True, fs) \<longrightarrow>
      detect p fs = (Inr pnpm, fs)) \<and>
   (fileExists (path_join [p, ''package-lock.json'']) fs = (Inr False, fs) \<and>
    fileExists (path_join [p, ''yarn.lock'']) fs = (Inr False, fs) \<and>
    fileExists (path_join [p, ''pnpm-lock.yaml'']) fs = (Inr False, fs) \<and>
    fileExists (path_join [p, ''bun.lockb'']) fs = (Inr True, fs) \<longrightarrow>
      detect p fs = (Inr bun, fs)) \<and>
   (fileExists (path_join [p, ''package-lock.json'']) fs = (Inr False, fs) \<and>
    fileExists (path_join [p, ''yarn.lock'']) fs = (Inr False, fs) \<and>
    fileExists (path_join [p, ''pnpm-lock.yaml'']) fs = (Inr False, fs) \<and>
    fileExists (path_join [p, ''bun.lockb'']) fs = (Inr False, fs) \<longrightarrow>
      detect p fs = (Inr npm, fs))"
  by (simp add: detect_def lockFiles_def await_def resolve_def)

text \<open>
  A directory with \<open>yarn.lock\<close> and \<open>bun.lockb\<close> is a yarn project, one with all four
  lockfiles an npm project, one with \<open>bun.lockb\<close> alone a bun project, and an empty
  one an npm project.
\<close>

theorem detect_first_lockfile_witness:
  "detect ''/app'' [''/app/bun.lockb'' \<mapsto> Unparsable, ''/app/yarn.lock'' \<mapsto> Unparsable] =
     (Inr yarn, [''/app/bun.lockb'' \<mapsto> Unparsable, ''/app/yarn.lock'' \<mapsto> Unparsable]) \<and>
   detect ''/app'' [''/app/bun.lockb'' \<mapsto> Unparsable, ''/app/pnpm-lock.yaml'' \<mapsto> Unparsable,
                    ''/app/yarn.lock'' \<mapsto> Unparsable,
                    ''/app/package-lock.json'' \<mapsto> Json OtherJson] =
     (Inr npm, [''/app/bun.lockb'' \<mapsto> Unparsable, ''/app/pnpm-lock.yaml'' \<mapsto> Unparsable,
                ''/app/yarn.lock'' \<mapsto> Unparsable,
                ''/app/package-lock.json'' \<mapsto> Json OtherJson]) \<and>
   detect ''/app'' [''/app/bun.lockb'' \<mapsto> Unparsable] =
     (Inr bun, [''/app/bun.lockb'' \<mapsto> Unparsable]) \<and>
   detect ''/app'' Map.empty = (Inr npm, Map.empty)"
proof -
  let ?fs2 = "[''/app/bun.lockb'' \<mapsto> Unparsable, ''/app/yarn.lock'' \<mapsto> Unparsable]"
  let ?fs4 = "[''/app/bun.lockb'' \<mapsto> Unparsable, ''/app/pnpm-lock.yaml'' \<mapsto> Unparsable,
               ''/app/yarn.lock'' \<mapsto> Unparsable, ''/app/package-lock.json'' \<mapsto> Json OtherJson]"
  let ?fs1 = "[''/app/bun.lockb'' \<mapsto> Unparsable]"
  have paths:
    "path_join [''/app'', ''package-lock.json''] = ''/app/package-lock.json''"
    "path_join [''/app'', ''yarn.lock''] = ''/app/yarn.lock''"
    "path_join [''/app'', ''pnpm-lock.yaml''] = ''/app/pnpm-lock.yaml''"
    "path_join [''/app'', ''bun.lockb''] = ''/app/bun.lockb''"
    by code_simp+
  have "detect ''/app'' ?fs2 = (Inr yarn, ?fs2)"
    using detect_first_lockfile [where p = "''/app''" and fs = ?fs2]
    by (simp add: paths fileExists_def)
  moreover have "detect ''/app'' ?fs4 = (Inr npm, ?fs4)"
    using detect_first_lockfile [where p = "''/app''" and fs = ?fs4]
    by (simp add: paths fileExists_def)
  moreover have "detect ''/app'' ?fs1 = (Inr bun, ?fs1)"
    using detect_first_lockfile [where p = "''/app''" and fs = ?fs1]
    by (simp add: paths fileExists_def)
  moreover have "detect ''/app'' Map.empty = (Inr npm, Map.empty)"
    using detect_first_lockfile [where p = "''/app''" and fs = Map.empty]
    by (simp add: fileExists_def)
  ultimately show ?thesis by blast
qed

section \<open>Properties of the add-feature flow\<close>

text \<open>
  C6 (amended). For the record of an installed feature, \<open>needsRegeneration\<close> is true
  exactly when the record's \<open>uiLibrary\<close> differs from the manifest's current
  \<open>uiLibrary\<close> or the record's \<open>stateManagement\<close> differs from the manifest's current
  \<open>stateManagement\<close>. So it is true whenever the two \<open>uiLibrary\<close> values differ, and
  false only when both pairs are equal.
\<close>

theorem needs_regeneration_either_differs:
  "(needsRegeneration f m \<longleftrightarrow>
      FeatureConfig.uiLibrary f \<noteq> ExpoGenieConfig.uiLibrary m \<or>
      FeatureConfig.stateManagement f \<noteq> ExpoGenieConfig.stateManagement m) \<and>
   (FeatureConfig.uiLibrary f \<noteq> ExpoGenieConfig.uiLibrary m \<longrightarrow> needsRegeneration f m) \<and>
   (FeatureConfig.uiLibrary f = ExpoGenieConfig.uiLibrary m \<longrightarrow>
      (needsRegeneration f m \<longleftrightarrow>
         FeatureConfig.stateManagement f \<noteq> ExpoGenieConfig.stateManagement m))"
  by (simp add: needsRegeneration_def)

text \<open>
  A record generated for \<open>paper\<close> in a project now on \<open>nativewind\<close> needs regeneration;
  a record that agrees with the project on both settings does not.
\<close>

theorem needs_regeneration_either_differs_witness:
  "needsRegeneration
        \<lparr>enabled = True, FeatureConfig.version = ''1.0.0'',
          installedAt = ''2024-01-01T00:00:00.000Z'', FeatureConfig.uiLibrary = ''paper'',
          FeatureConfig.stateManagement = ''zustand'', files = [''src/hooks/useCamera.ts''],
          dependencies = [''expo-camera'']\<rparr>
     (createDefaultConfig ''demo'' ''blank'' ''nativewind'' ''zustand'' ''npm'') \<and>
   \<not> needsRegeneration
        \<lparr>enabled = True, FeatureConfig.version = ''1.0.0'',
          installedAt = ''2024-01-01T00:00:00.000Z'', FeatureConfig.uiLibrary = ''nativewind'',
          FeatureConfig.stateManagement = ''zustand'', files = [''src/hooks/useCamera.ts''],
          dependencies = [''expo-camera'']\<rparr>
     (createDefaultConfig ''demo'' ''blank'' ''nativewind'' ''zustand'' ''npm'')"
proof -
  let ?m = "createDefaultConfig ''demo'' ''blank'' ''nativewind'' ''zustand'' ''npm''"
  have "needsRegeneration
        \<lparr>enabled = True, FeatureConfig.version = ''1.0.0'',
          installedAt = ''2024-01-01T00:00:00.000Z'', FeatureConfig.uiLibrary = ''paper'',
          FeatureConfig.stateManagement = ''zustand'', files = [''src/hooks/useCamera.ts''],
          dependencies = [''expo-camera'']\<rparr> ?m"
    using needs_regeneration_either_differs [where m = ?m and f = "
        \<lparr>enabled = True, FeatureConfig.version = ''1.0.0'',
          installedAt = ''2024-01-01T00:00:00.000Z'', FeatureConfig.uiLibrary = ''paper'',
          FeatureConfig.stateManagement = ''zustand'', files = [''src/hooks/useCamera.ts''],
          dependencies = [''expo-camera'']\<rparr>"]
    by (simp add: createDefaultConfig_def)
  moreover have "\<not> needsRegeneration
        \<lparr>enabled = True, FeatureConfig.version = ''1.0.0'',
          installedAt = ''2024-01-01T00:00:00.000Z'', FeatureConfig.uiLibrary = ''nativewind'',
          FeatureConfig.stateManagement = ''zustand'', files = [''src/hooks/useCamera.ts''],
          dependencies = [''expo-camera'']\<rparr> ?m"
    using needs_regeneration_either_differs [where m = ?m and f = "
        \<lparr>enabled = True, FeatureConfig.version = ''1.0.0'',
          installedAt = ''2024-01-01T00:00:00.000Z'', FeatureConfig.uiLibrary = ''nativewind'',
          FeatureConfig.stateManagement = ''zustand'', files = [''src/hooks/useCamera.ts''],
          dependencies = [''expo-camera'']\<rparr>"]
    by (simp add: createDefaultConfig_def)
  ultimately show ?thesis by blast
qed

text \<open>
  C6 as stated fails: the record and the manifest agree on \<open>uiLibrary\<close>, and
  \<open>needsRegeneration\<close> is true all the same, because the \<open>stateManagement\<close> values
  differ.
\<close>

theorem needs_regeneration_equal_ui_counterexample:
  "FeatureConfig.uiLibrary
        \<lparr>enabled = True, FeatureConfig.version = ''1.0.0'',
          installedAt = ''2024-01-01T00:00:00.000Z'', FeatureConfig.uiLibrary = ''nativewind'',
          FeatureConfig.stateManagement = ''redux'', files = [''src/hooks/useCamera.ts''],
          dependencies = [''expo-camera'']\<rparr> =
   ExpoGenieConfig.uiLibrary
     (createDefaultConfig ''demo'' ''blank'' ''nativewind'' ''zustand'' ''npm'') \<and>
   needsRegeneration
        \<lparr>enabled = True, FeatureConfig.version = ''1.0.0'',
          installedAt = ''2024-01-01T00:00:00.000Z'', FeatureConfig.uiLibrary = ''nativewind'',
          FeatureConfig.stateManagement = ''redux'', files = [''src/hooks/useCamera.ts''],
          dependencies = [''expo-camera'']\<rparr>
     (createDefaultConfig ''demo'' ''blank'' ''nativewind'' ''zustand'' ''npm'')"
  by (simp add: needsRegeneration_def createDefaultConfig_def)

section \<open>Properties of the code generators\<close>

subsection \<open>Name normalisation\<close>









subsection \<open>The path of a generated screen\<close>











end
